theory Spec2Isabelle
  imports Complex_Main
begin

section \<open>Data model\<close>

text \<open>
  A pandas DataFrame as \<open>main.py\<close> uses it: the column labels and the rows, each row
  being its index label and one cell per column. \<open>df.shape\<close> is
  \<open>(shape0 df, shape1 df)\<close>. Floating-point numbers are modelled as reals; the special
  values that the code tests for (NaN, the infinities) are cells of their own.
\<close>

datatype cell =
    Num real
  | PosInf
  | NegInf
  | NaN
  | Txt string  \<comment> \<open>text that pandas cannot convert to a number\<close>

record ('i, 'c) frame =
  columns :: "string list"
  rows :: "('i \<times> 'c list) list"

definition shape0 :: "('i, 'c) frame \<Rightarrow> nat" where
  "shape0 df = length (rows df)"

definition shape1 :: "('i, 'c) frame \<Rightarrow> nat" where
  "shape1 df = length (columns df)"

definition column :: "('i, 'c) frame \<Rightarrow> nat \<Rightarrow> 'c list" where
  "column df j = map (\<lambda>r. snd r ! j) (rows df)"

text \<open>Every \<open>raise ValueError\<close> of \<open>PortfolioOptimizer\<close>, one constructor per site, and the
  one exception of another class that can leave \<open>optimize_portfolio\<close>.\<close>

datatype error =
    EmptyCsv
  | InsufficientObservations nat
  | InsufficientAssets nat
  | NonNumericColumns "string list"
  | PricesNotReturns
  | CleanInsufficientObservations nat
  | CleanInsufficientAssets nat
  | ExpectedReturnsError
  | CovarianceError
  | NotPositiveSemidefinite
  | OptimizationError string
  | LinAlgError string

text \<open>What the code prints, in order.\<close>

datatype log_event =
    ExtremeReturns cell cell
  | DroppingColumns "string list"
  | Processed "nat \<times> nat" "nat \<times> nat"
  | VolatilityExceeds real real
  | RiskApplied
  | RiskFailed string
  | UsingMaxSharpe

record portfolio_metrics =
  expected_return :: real
  expected_volatility :: real
  sharpe_ratio :: real
  active_positions :: nat
  total_weight :: real

record result =
  optimal_portfolio :: "(string \<times> real) list"
  portfolio_metrics :: portfolio_metrics

text \<open>
  The third-party routines that \<open>optimize_portfolio\<close> calls, taken as parameters:
  \<open>numpy.linalg.eigvals\<close> and the \<open>pypfopt.EfficientFrontier\<close> class, whose objects have
  the type \<open>'ef\<close>. A method that mutates the object returns the new object; a call that
  raises returns the exception's text on the left.
\<close>

record 'ef library =
  eigvals :: "real list list \<Rightarrow> string + real list"
  EfficientFrontier :: "(string \<times> real) list \<Rightarrow> real list list \<Rightarrow> real \<times> real \<Rightarrow> string + 'ef"
  max_sharpe :: "'ef \<Rightarrow> string + 'ef"
  efficient_risk :: "'ef \<Rightarrow> real \<Rightarrow> string + 'ef"
  clean_weights :: "'ef \<Rightarrow> string + (string \<times> real) list"
  portfolio_performance :: "'ef \<Rightarrow> string + real \<times> real \<times> real"

section \<open>Statistics estimation (lines 120 to 131)\<close>

definition TRADING_DAYS :: real where
  "TRADING_DAYS = 252"

text \<open>\<open>Series.mean\<close>: NaN (here \<open>None\<close>) on an empty column.\<close>

definition mean :: "real list \<Rightarrow> real option" where
  "mean xs = (if xs = [] then None else Some (sum_list xs / real (length xs)))"

text \<open>One entry of \<open>DataFrame.cov()\<close>, whose default is \<open>ddof=1\<close>: NaN with fewer than
  two observations.\<close>

definition cov :: "real list \<Rightarrow> real list \<Rightarrow> real option" where
  "cov xs ys =
     (case (mean xs, mean ys) of
        (Some mx, Some my) \<Rightarrow>
          if length xs < 2 then None
          else Some (sum_list (map2 (\<lambda>x y. (x - mx) * (y - my)) xs ys) / real (length xs - 1))
      | _ \<Rightarrow> None)"

definition df_mean :: "('i, real) frame \<Rightarrow> real option list" where
  "df_mean df = map (\<lambda>j. mean (column df j)) [0..<shape1 df]"

definition df_cov :: "('i, real) frame \<Rightarrow> real option list list" where
  "df_cov df =
     map (\<lambda>i. map (\<lambda>j. cov (column df i) (column df j)) [0..<shape1 df]) [0..<shape1 df]"

definition annualized_statistics ::
  "('i, real) frame \<Rightarrow> error + (string \<times> real) list \<times> real list list" where
  "annualized_statistics df =
     (let mu = map (map_option (\<lambda>m. m * TRADING_DAYS)) (df_mean df);
          S = map (map (map_option (\<lambda>c. c * TRADING_DAYS))) (df_cov df)
      in if None \<in> set mu then Inl ExpectedReturnsError
         else if (\<exists>row \<in> set S. None \<in> set row) then Inl CovarianceError
         else Inr (zip (columns df) (map the mu), map (map the) S))"

section \<open>Covariance validation (lines 133 to 136)\<close>

definition validate_covariance :: "'ef library \<Rightarrow> real list list \<Rightarrow> error + unit" where
  "validate_covariance L S =
     (case eigvals L S of
        Inl e \<Rightarrow> Inl (LinAlgError e)
      | Inr eigenvalues \<Rightarrow>
          if (\<exists>ev \<in> set eigenvalues. ev \<le> 0) then Inl NotPositiveSemidefinite
          else Inr ())"

section \<open>The optimisation (lines 138 to 179)\<close>

text \<open>Python's \<open>round(x, n)\<close> on a float: to the nearest multiple of \<open>10^-n\<close>, a tie
  going to the even one.\<close>

definition round_half_even :: "real \<Rightarrow> int" where
  "round_half_even x =
     (let f = \<lfloor>x\<rfloor>; d = x - of_int f
      in if d < 1 / 2 then f else if 1 / 2 < d then f + 1 else if even f then f else f + 1)"

definition py_round :: "real \<Rightarrow> nat \<Rightarrow> real" where
  "py_round x n = of_int (round_half_even (x * 10 ^ n)) / 10 ^ n"

definition make_result :: "(string \<times> real) list \<Rightarrow> real \<times> real \<times> real \<Rightarrow> result" where
  "make_result cleaned_weights perf =
     (case perf of (er, ev, sr) \<Rightarrow>
        \<lparr>optimal_portfolio = cleaned_weights,
         portfolio_metrics =
           \<lparr>expected_return = py_round er 6,
            expected_volatility = py_round ev 6,
            sharpe_ratio = py_round sr 6,
            active_positions = length (filter (\<lambda>w. 1 / 1000 < w) (map snd cleaned_weights)),
            total_weight = py_round (sum_list (map snd cleaned_weights)) 6\<rparr>\<rparr>)"

text \<open>
  The inner \<open>try\<close> (lines 154 to 162). It starts from the max-Sharpe weights and metrics
  and overwrites them one assignment at a time, so an exception leaves what was assigned
  before it.
\<close>

definition risk_block ::
  "'ef library \<Rightarrow> (string \<times> real) list \<Rightarrow> real list list \<Rightarrow> real \<Rightarrow> real \<Rightarrow>
   (string \<times> real) list \<Rightarrow> real \<times> real \<times> real \<Rightarrow>
   log_event list \<times> (string \<times> real) list \<times> (real \<times> real \<times> real)" where
  "risk_block L mu S risk_level max_weight cleaned_weights perf =
     (case EfficientFrontier L mu S (0, max_weight) of
        Inl e \<Rightarrow> ([RiskFailed e, UsingMaxSharpe], cleaned_weights, perf)
      | Inr ef_risk \<Rightarrow>
     (case efficient_risk L ef_risk risk_level of
        Inl e \<Rightarrow> ([RiskFailed e, UsingMaxSharpe], cleaned_weights, perf)
      | Inr ef_risk' \<Rightarrow>
     (case clean_weights L ef_risk' of
        Inl e \<Rightarrow> ([RiskFailed e, UsingMaxSharpe], cleaned_weights, perf)
      | Inr cleaned_weights' \<Rightarrow>
     (case portfolio_performance L ef_risk' of
        Inl e \<Rightarrow> ([RiskFailed e, UsingMaxSharpe], cleaned_weights', perf)
      | Inr perf' \<Rightarrow> ([RiskApplied], cleaned_weights', perf')))))"

text \<open>The outer \<open>try\<close> (lines 138 to 176); the left result is the exception it catches.\<close>

definition try_block ::
  "'ef library \<Rightarrow> (string \<times> real) list \<Rightarrow> real list list \<Rightarrow> real \<Rightarrow> real \<Rightarrow>
   log_event list \<times> (string + result)" where
  "try_block L mu S risk_level max_weight =
     (case EfficientFrontier L mu S (0, max_weight) of
        Inl e \<Rightarrow> ([], Inl e)
      | Inr ef \<Rightarrow>
     (case max_sharpe L ef of
        Inl e \<Rightarrow> ([], Inl e)
      | Inr ef' \<Rightarrow>
     (case clean_weights L ef' of
        Inl e \<Rightarrow> ([], Inl e)
      | Inr cleaned_weights \<Rightarrow>
     (case portfolio_performance L ef' of
        Inl e \<Rightarrow> ([], Inl e)
      | Inr (er, ev, sr) \<Rightarrow>
          if risk_level < ev then
            (case risk_block L mu S risk_level max_weight cleaned_weights (er, ev, sr) of
               (printed, cw, perf) \<Rightarrow> (VolatilityExceeds ev risk_level # printed, Inr (make_result cw perf)))
          else ([], Inr (make_result cleaned_weights (er, ev, sr)))))))"

definition optimize_portfolio ::
  "'ef library \<Rightarrow> ('i, real) frame \<Rightarrow> real \<Rightarrow> real \<Rightarrow> log_event list \<times> (error + result)" where
  "optimize_portfolio L df risk_level max_weight =
     (case annualized_statistics df of
        Inl err \<Rightarrow> ([], Inl err)
      | Inr (mu, S) \<Rightarrow>
     (case validate_covariance L S of
        Inl err \<Rightarrow> ([], Inl err)
      | Inr _ \<Rightarrow>
     (case try_block L mu S risk_level max_weight of
        (printed, Inl e) \<Rightarrow> (printed, Inl (OptimizationError e))
      | (printed, Inr res) \<Rightarrow> (printed, Inr res))))"

section \<open>Format validation (\<open>validate_csv_format\<close>, lines 40 to 75)\<close>

definition df_empty :: "('i, 'c) frame \<Rightarrow> bool" where
  "df_empty df = (rows df = [] \<or> columns df = [])"

fun is_text :: "cell \<Rightarrow> bool" where
  "is_text (Txt s) = True"
| "is_text c = False"

text \<open>The columns that are not of a numeric dtype and that \<open>pd.to_numeric\<close> refuses:
  those holding a text cell.\<close>

definition non_numeric_cols :: "('i, cell) frame \<Rightarrow> string list" where
  "non_numeric_cols df =
     map (\<lambda>j. columns df ! j) (filter (\<lambda>j. list_ex is_text (column df j)) [0..<shape1 df])"

text \<open>Python's \<open>>\<close> and \<open><\<close> between a float and a number: false on NaN.\<close>

fun cell_gt :: "cell \<Rightarrow> real \<Rightarrow> bool" where
  "cell_gt (Num x) t = (t < x)"
| "cell_gt PosInf t = True"
| "cell_gt c t = False"

fun cell_lt :: "cell \<Rightarrow> real \<Rightarrow> bool" where
  "cell_lt (Num x) t = (x < t)"
| "cell_lt NegInf t = True"
| "cell_lt c t = False"

text \<open>The larger and the smaller of two cells as \<open>max()\<close> and \<open>min()\<close> of pandas take
  them: NaN is skipped. No text cell is left where the code takes them.\<close>

fun fmax :: "cell \<Rightarrow> cell \<Rightarrow> cell" where
  "fmax NaN c = c"
| "fmax c NaN = c"
| "fmax (Txt s) c = c"
| "fmax c (Txt s) = c"
| "fmax PosInf c = PosInf"
| "fmax c PosInf = PosInf"
| "fmax NegInf c = c"
| "fmax c NegInf = c"
| "fmax (Num x) (Num y) = Num (max x y)"

fun fmin :: "cell \<Rightarrow> cell \<Rightarrow> cell" where
  "fmin NaN c = c"
| "fmin c NaN = c"
| "fmin (Txt s) c = c"
| "fmin c (Txt s) = c"
| "fmin NegInf c = NegInf"
| "fmin c NegInf = NegInf"
| "fmin PosInf c = c"
| "fmin c PosInf = c"
| "fmin (Num x) (Num y) = Num (min x y)"

definition series_max :: "cell list \<Rightarrow> cell" where
  "series_max cs = foldr fmax cs NaN"

definition series_min :: "cell list \<Rightarrow> cell" where
  "series_min cs = foldr fmin cs NaN"

text \<open>\<open>df.max().max()\<close> and \<open>df.min().min()\<close>.\<close>

definition df_max :: "('i, cell) frame \<Rightarrow> cell" where
  "df_max df = series_max (map (\<lambda>j. series_max (column df j)) [0..<shape1 df])"

definition df_min :: "('i, cell) frame \<Rightarrow> cell" where
  "df_min df = series_min (map (\<lambda>j. series_min (column df j)) [0..<shape1 df])"

definition validate_csv_format :: "('i, cell) frame \<Rightarrow> log_event list \<times> (error + unit)" where
  "validate_csv_format df =
     (if df_empty df then ([], Inl EmptyCsv)
      else if shape0 df < 30 then ([], Inl (InsufficientObservations (shape0 df)))
      else if shape1 df < 2 then ([], Inl (InsufficientAssets (shape1 df)))
      else if non_numeric_cols df \<noteq> [] then ([], Inl (NonNumericColumns (non_numeric_cols df)))
      else
        (let max_val = df_max df; min_val = df_min df
         in if cell_gt max_val 1 \<or> cell_lt min_val (- 1) then
              (if cell_gt max_val 100 then ([], Inl PricesNotReturns)
               else ([ExtremeReturns min_val max_val], Inr ()))
            else ([], Inr ())))"

section \<open>Cleaning (\<open>clean_data\<close>, lines 78 to 114)\<close>

text \<open>\<open>drop_duplicates()\<close> and \<open>~duplicated(keep='first')\<close>: of the entries with one key,
  the first stays. pandas takes two NaN for equal here, as the equality of cells does.\<close>

fun keep_first :: "('a \<Rightarrow> 'k) \<Rightarrow> 'k list \<Rightarrow> 'a list \<Rightarrow> 'a list" where
  "keep_first key seen [] = []"
| "keep_first key seen (x # xs) =
     (if key x \<in> set seen then keep_first key seen xs
      else x # keep_first key (key x # seen) xs)"

text \<open>\<open>pd.to_numeric(errors='coerce')\<close> on one cell.\<close>

fun to_numeric_coerce :: "cell \<Rightarrow> cell" where
  "to_numeric_coerce (Txt s) = NaN"
| "to_numeric_coerce c = c"

text \<open>\<open>replace([np.inf, -np.inf], np.nan)\<close> on one cell.\<close>

fun replace_inf :: "cell \<Rightarrow> cell" where
  "replace_inf PosInf = NaN"
| "replace_inf NegInf = NaN"
| "replace_inf c = c"

definition map_cells :: "('c \<Rightarrow> 'd) \<Rightarrow> ('i, 'c) frame \<Rightarrow> ('i, 'd) frame" where
  "map_cells f df = \<lparr>columns = columns df, rows = map (\<lambda>r. (fst r, map f (snd r))) (rows df)\<rparr>"

fun isna :: "cell \<Rightarrow> bool" where
  "isna NaN = True"
| "isna c = False"

text \<open>\<open>nan_percentage > 0.1\<close> for column \<open>j\<close>; on a frame without rows the quotient is NaN
  and the comparison false.\<close>

definition problematic :: "('i, cell) frame \<Rightarrow> nat \<Rightarrow> bool" where
  "problematic df j =
     (shape0 df \<noteq> 0 \<and> 1 / 10 < real (length (filter isna (column df j))) / real (shape0 df))"

text \<open>Selection by a Boolean mask.\<close>

definition select :: "bool list \<Rightarrow> 'a list \<Rightarrow> 'a list" where
  "select keep xs = map snd (filter fst (zip keep xs))"

definition drop_columns :: "bool list \<Rightarrow> ('i, 'c) frame \<Rightarrow> ('i, 'c) frame" where
  "drop_columns dropped df =
     \<lparr>columns = select (map Not dropped) (columns df),
      rows = map (\<lambda>r. (fst r, select (map Not dropped) (snd r))) (rows df)\<rparr>"

definition dropna :: "('i, cell) frame \<Rightarrow> ('i, cell) frame" where
  "dropna df = df\<lparr>rows := filter (\<lambda>r. \<not> list_ex isna (snd r)) (rows df)\<rparr>"

text \<open>
  Lines 81 to 105: what is printed, and the frame that lines 108 to 112 test. Cells are
  held by value: an entry of a text-typed column that \<open>to_numeric\<close> converts stands here as
  its number, while \<open>drop_duplicates\<close> (line 84) runs before the conversion and compares
  such entries by their spelling. Two rows that differ only in the spelling of a number in
  a text-typed column are therefore one row here and two in pandas; on numeric-typed
  columns, as \<open>read_csv\<close> yields them for numeric data, the two agree.
\<close>

definition clean_steps :: "('i, cell) frame \<Rightarrow> log_event list \<times> ('i, cell) frame" where
  "clean_steps df =
     (let original_shape = (shape0 df, shape1 df);
          df1 = df\<lparr>rows := keep_first snd [] (rows df)\<rparr>;
          df2 = df1\<lparr>rows := keep_first fst [] (rows df1)\<rparr>;
          df3 = map_cells to_numeric_coerce df2;
          df4 = map_cells replace_inf df3;
          problematic_cols = map (problematic df4) [0..<shape1 df4];
          df5 = (if list_ex id problematic_cols then drop_columns problematic_cols df4 else df4);
          df6 = dropna df5
      in ((if list_ex id problematic_cols
           then [DroppingColumns (select problematic_cols (columns df4))] else [])
          @ [Processed original_shape (shape0 df6, shape1 df6)],
          df6))"

definition clean_data ::
  "('i, cell) frame \<Rightarrow> log_event list \<times> (error + ('i, cell) frame)" where
  "clean_data df =
     (case clean_steps df of
        (printed, df') \<Rightarrow>
          if shape0 df' < 30 then (printed, Inl (CleanInsufficientObservations (shape0 df')))
          else if shape1 df' < 2 then (printed, Inl (CleanInsufficientAssets (shape1 df')))
          else (printed, Inr df'))"

text \<open>A cleaned frame holds numbers only; \<open>numeric\<close> reads it as the matrix of reals that
  the statistics are taken of.\<close>

fun cell_value :: "cell \<Rightarrow> real" where
  "cell_value (Num x) = x"
| "cell_value c = 0"

definition numeric :: "('i, cell) frame \<Rightarrow> ('i, real) frame" where
  "numeric df = map_cells cell_value df"


section \<open>The endpoints (lines 204 to 323)\<close>

text \<open>
  The uploaded file is a stream: \<open>read()\<close> returns what lies after the cursor and leaves
  the cursor at the end.
\<close>

record upload =
  filename :: "string option"
  content :: string
  cursor :: nat

definition file_read :: "upload \<Rightarrow> string \<times> upload" where
  "file_read file = (drop (cursor file) (content file), file\<lparr>cursor := length (content file)\<rparr>)"

datatype parse_error = UnicodeDecodeError | EmptyDataError | ParserError string

text \<open>
  \<open>pd.read_csv(io.StringIO(contents.decode('utf-8')), ...)\<close>. The empty byte string decodes
  to the empty string, on which \<open>read_csv\<close> raises \<open>EmptyDataError\<close> (no columns to parse);
  decoding and parsing anything else is the parameter \<open>parser\<close>.
\<close>

definition read_csv ::
  "(string \<Rightarrow> parse_error + ('i, cell) frame) \<Rightarrow> string \<Rightarrow> parse_error + ('i, cell) frame" where
  "read_csv parser contents = (if contents = [] then Inl EmptyDataError else parser contents)"

text \<open>An exception other than \<open>HTTPException\<close> that reaches an \<open>except Exception\<close>.\<close>

datatype exception = AttributeError | Raised error | ParseFailure parse_error

datatype detail =
    RiskLevelOutOfRange real
  | MaxWeightOutOfRange real
  | NotACsvFile
  | EncodingError
  | CsvReadError parse_error
  | InvalidCsvFormat error
  | CleaningError error
  | OptimizationFailed error
  | InternalServerError exception
  | InternalError exception

datatype http_exception = HTTPException nat detail

definition lower :: "string \<Rightarrow> string" where
  "lower s =
     map (\<lambda>c. if c \<in> set ''ABCDEFGHIJKLMNOPQRSTUVWXYZ''
               then char_of (of_char c + (32 :: nat)) else c) s"

definition endswith :: "string \<Rightarrow> string \<Rightarrow> bool" where
  "endswith s suffix =
     (length suffix \<le> length s \<and> drop (length s - length suffix) s = suffix)"

text \<open>The exceptions of \<open>optimize_portfolio\<close> that are a \<open>ValueError\<close>.\<close>

fun is_value_error :: "error \<Rightarrow> bool" where
  "is_value_error (LinAlgError e) = False"
| "is_value_error err = True"

definition optimize_portfolio_endpoint ::
  "'ef library \<Rightarrow> (string \<Rightarrow> parse_error + ('i, cell) frame) \<Rightarrow> upload \<Rightarrow> real \<Rightarrow> real \<Rightarrow>
   upload \<times> (http_exception + (string \<times> real) list)" where
  "optimize_portfolio_endpoint L parser file risk_level max_weight =
     (if \<not> (1 / 100 \<le> risk_level \<and> risk_level \<le> 2) then
        (file, Inl (HTTPException 422 (RiskLevelOutOfRange risk_level)))
      else if \<not> (1 / 100 \<le> max_weight \<and> max_weight \<le> 1) then
        (file, Inl (HTTPException 422 (MaxWeightOutOfRange max_weight)))
      else
     (case filename file of
        None \<Rightarrow> (file, Inl (HTTPException 500 (InternalServerError AttributeError)))
      | Some name \<Rightarrow>
          if \<not> endswith (lower name) ''.csv'' then (file, Inl (HTTPException 422 NotACsvFile))
          else
     (case file_read file of (contents, file') \<Rightarrow>
     (case read_csv parser contents of
        Inl UnicodeDecodeError \<Rightarrow> (file', Inl (HTTPException 422 EncodingError))
      | Inl e \<Rightarrow> (file', Inl (HTTPException 422 (CsvReadError e)))
      | Inr df \<Rightarrow>
     (case snd (validate_csv_format df) of
        Inl e \<Rightarrow> (file', Inl (HTTPException 422 (InvalidCsvFormat e)))
      | Inr _ \<Rightarrow>
     (case snd (clean_data df) of
        Inl e \<Rightarrow> (file', Inl (HTTPException 422 (CleaningError e)))
      | Inr df_clean \<Rightarrow>
     (case snd (optimize_portfolio L (numeric df_clean) risk_level max_weight) of
        Inl e \<Rightarrow>
          if is_value_error e then (file', Inl (HTTPException 422 (OptimizationFailed e)))
          else (file', Inl (HTTPException 500 (InternalServerError (Raised e))))
      | Inr result \<Rightarrow> (file', Inr (optimal_portfolio result)))))))))"

definition optimize_portfolio_detailed_endpoint ::
  "'ef library \<Rightarrow> (string \<Rightarrow> parse_error + ('i, cell) frame) \<Rightarrow> upload \<Rightarrow> real \<Rightarrow> real \<Rightarrow>
   upload \<times> (http_exception + result)" where
  "optimize_portfolio_detailed_endpoint L parser file risk_level max_weight =
     (case optimize_portfolio_endpoint L parser file risk_level max_weight of
        (file', Inl http) \<Rightarrow> (file', Inl http)
      | (file', Inr result) \<Rightarrow>
     (case file_read file' of (contents, file'') \<Rightarrow>
     (case read_csv parser contents of
        Inl e \<Rightarrow> (file'', Inl (HTTPException 500 (InternalError (ParseFailure e))))
      | Inr df \<Rightarrow>
     (case snd (clean_data df) of
        Inl e \<Rightarrow> (file'', Inl (HTTPException 500 (InternalError (Raised e))))
      | Inr df_clean \<Rightarrow>
     (case snd (optimize_portfolio L (numeric df_clean) risk_level max_weight) of
        Inl e \<Rightarrow> (file'', Inl (HTTPException 500 (InternalError (Raised e))))
      | Inr detailed_result \<Rightarrow> (file'', Inr detailed_result))))))"

section \<open>The statistics as the specification words them\<close>

definition spec_mean :: "real list \<Rightarrow> real" where
  "spec_mean xs = (\<Sum>t<length xs. xs ! t) / real (length xs)"

definition spec_mu :: "('i, real) frame \<Rightarrow> real list" where
  "spec_mu df = map (\<lambda>i. spec_mean (column df i) * 252) [0..<shape1 df]"

definition spec_sigma :: "('i, real) frame \<Rightarrow> real list list" where
  "spec_sigma df =
     map (\<lambda>i. map (\<lambda>j.
        (\<Sum>t<shape0 df. (column df i ! t - spec_mean (column df i)) *
                          (column df j ! t - spec_mean (column df j)))
          / (real (shape0 df) - 1) * 252) [0..<shape1 df]) [0..<shape1 df]"

section \<open>Sample inputs\<close>

text \<open>
  A stand-in for the library, to run the functions above on the sample frames: it gives
  equal weights, fixed performance figures, and fails every efficient-risk solve. Its
  \<open>eigvals\<close> returns the diagonal, which holds the eigenvalues of a diagonal matrix, as
  the covariance matrices of the sample frames are.
\<close>

definition sample_library :: "(string \<times> real) list library" where
  "sample_library =
     \<lparr>eigvals = (\<lambda>S. Inr (map (\<lambda>i. S ! i ! i) [0..<length S])),
      EfficientFrontier = (\<lambda>mu S bounds. Inr (map (\<lambda>m. (fst m, 1 / real (length mu))) mu)),
      max_sharpe = Inr,
      efficient_risk = (\<lambda>ef target. Inl ''infeasible''),
      clean_weights = Inr,
      portfolio_performance = (\<lambda>ef. Inr (1 / 10, 1 / 5, 1 / 2))\<rparr>"

text \<open>Thirty observations of two assets \<open>A\<close> and \<open>B\<close>; the first argument is \<open>A\<close>'s value
  in row \<open>i\<close>. With \<open>A\<close> odd and \<open>B\<close> even about the middle row the two are uncorrelated.\<close>

definition sample_frame :: "(nat \<Rightarrow> real) \<Rightarrow> (nat, cell) frame" where
  "sample_frame a =
     \<lparr>columns = [''A'', ''B''],
      rows = map (\<lambda>i. (i, [Num (a i), Num ((2 * real i - 29)\<^sup>2 / 100000)])) [0..<30]\<rparr>"

definition sample_returns :: "(nat, cell) frame" where
  "sample_returns = sample_frame (\<lambda>i. (2 * real i - 29) / 1000)"

definition near_singular_returns :: "(nat, cell) frame" where
  "near_singular_returns = sample_frame (\<lambda>i. (2 * real i - 29) / 1000000000)"

definition constant_returns :: "(nat, cell) frame" where
  "constant_returns = sample_frame (\<lambda>i. 1 / 100)"

definition extreme_returns :: "(nat, cell) frame" where
  "extreme_returns = sample_frame (\<lambda>i. 2 * real i - 29)"

definition price_like :: "(nat, cell) frame" where
  "price_like = sample_frame (\<lambda>i. 10 * (2 * real i - 29))"

definition short_prices :: "(nat, cell) frame" where
  "short_prices = \<lparr>columns = [''A'', ''B''], rows = [(0, [Num 150, Num 0])]\<rparr>"


definition sample_upload :: upload where
  "sample_upload = \<lparr>filename = Some ''returns.CSV'', content = ''A,B'', cursor = 0\<rparr>"

definition sample_parser :: "string \<Rightarrow> parse_error + (nat, cell) frame" where
  "sample_parser contents = Inr sample_returns"

section \<open>Auxiliary facts\<close>

lemma sum_list_map2_nth:
  assumes "length xs = length ys"
  shows "sum_list (map2 f xs ys) = (\<Sum>t<length xs. f (xs ! t) (ys ! t))"
proof -
  have "sum_list (map2 f xs ys) = (\<Sum>t<length (map2 f xs ys). map2 f xs ys ! t)"
    by (simp add: sum_list_sum_nth atLeast0LessThan)
  also have "\<dots> = (\<Sum>t<length xs. f (xs ! t) (ys ! t))"
    using assms by (intro sum.cong) auto
  finally show ?thesis .
qed

lemma length_column: "length (column df j) = shape0 df"
  by (simp add: column_def shape0_def)

lemma mean_spec: "xs \<noteq> [] \<Longrightarrow> mean xs = Some (spec_mean xs)"
  by (simp add: mean_def spec_mean_def sum_list_sum_nth atLeast0LessThan)

lemma cov_spec:
  assumes "2 \<le> shape0 df"
  shows "cov (column df i) (column df j) =
    Some ((\<Sum>t<shape0 df. (column df i ! t - spec_mean (column df i)) *
                          (column df j ! t - spec_mean (column df j))) / (real (shape0 df) - 1))"
proof -
  have ne: "column df i \<noteq> []" "column df j \<noteq> []"
    using assms length_column [of df i] length_column [of df j] by auto
  have len: "length (column df i) = length (column df j)"
    by (simp add: length_column)
  have r: "real (shape0 df - 1) = real (shape0 df) - 1"
    using assms by (simp add: of_nat_diff)
  show ?thesis
    using assms
    by (simp add: cov_def mean_spec [OF ne(1)] mean_spec [OF ne(2)]
        sum_list_map2_nth [OF len] length_column r)
qed

lemma cell_gt_fmax: "cell_gt (fmax a b) t \<longleftrightarrow> cell_gt a t \<or> cell_gt b t"
  by (cases a; cases b) auto

lemma cell_lt_fmin: "cell_lt (fmin a b) t \<longleftrightarrow> cell_lt a t \<or> cell_lt b t"
  by (cases a; cases b) auto

lemma cell_gt_series_max: "cell_gt (series_max cs) t \<longleftrightarrow> (\<exists>c \<in> set cs. cell_gt c t)"
  by (induction cs) (auto simp: series_max_def cell_gt_fmax)

lemma cell_lt_series_min: "cell_lt (series_min cs) t \<longleftrightarrow> (\<exists>c \<in> set cs. cell_lt c t)"
  by (induction cs) (auto simp: series_min_def cell_lt_fmin)

lemma cell_gt_df_max:
  "cell_gt (df_max df) t \<longleftrightarrow> (\<exists>j<shape1 df. \<exists>c \<in> set (column df j). cell_gt c t)"
  by (auto simp: df_max_def cell_gt_series_max)

lemma cell_lt_df_min:
  "cell_lt (df_min df) t \<longleftrightarrow> (\<exists>j<shape1 df. \<exists>c \<in> set (column df j). cell_lt c t)"
  by (auto simp: df_min_def cell_lt_series_min)

lemma cell_gt_mono: "cell_gt c t \<Longrightarrow> s \<le> t \<Longrightarrow> cell_gt c s"
  by (cases c) auto

lemma file_read_twice: "file_read (snd (file_read file)) = ([], snd (file_read file))"
  by (simp add: file_read_def)

lemma endpoint_consumes:
  assumes "optimize_portfolio_endpoint L parser file risk_level max_weight = (file', Inr p)"
  shows "file' = snd (file_read file)"
  using assms unfolding optimize_portfolio_endpoint_def
  by (auto split: if_splits option.splits prod.splits sum.splits parse_error.splits)

subsection \<open>Cleaning\<close>

lemma keep_first_subset: "set (keep_first key seen xs) \<subseteq> set xs"
  by (induction xs arbitrary: seen) auto

lemma keep_first_distinct:
  "distinct (map key xs) \<Longrightarrow> \<forall>x \<in> set xs. key x \<notin> set seen \<Longrightarrow> keep_first key seen xs = xs"
proof (induction xs arbitrary: seen)
  case Nil
  then show ?case by simp
next
  case (Cons x xs)
  have d: "distinct (map key xs)" and fresh: "key x \<notin> key ` set xs"
    using Cons.prems(1) by simp_all
  have f: "\<forall>y \<in> set xs. key y \<notin> set (key x # seen)"
    using Cons.prems(2) fresh by (simp add: image_iff) metis
  have "keep_first key (key x # seen) xs = xs"
    using d f by (rule Cons.IH)
  with Cons.prems show ?case by simp
qed

lemma coerce_numeric:
  "\<forall>c \<in> set cs. \<exists>x. c = Num x \<Longrightarrow> map (replace_inf \<circ> to_numeric_coerce) cs = cs"
  by (induction cs) auto

lemma no_na_numeric: "\<forall>c \<in> set cs. \<exists>x. c = Num x \<Longrightarrow> \<not> list_ex isna cs"
  by (induction cs) auto

lemma filter_isna_numeric: "\<forall>c \<in> set cs. \<exists>x. c = Num x \<Longrightarrow> filter isna cs = []"
  by (induction cs) auto

lemma numeric_frame_steps:
  fixes d :: "('i, cell) frame"
  assumes num: "\<forall>r \<in> set (rows d). \<forall>c \<in> set (snd r). \<exists>x. c = Num x"
      and wf: "\<forall>r \<in> set (rows d). length (snd r) = shape1 d"
  shows "map_cells replace_inf (map_cells to_numeric_coerce d) = d"
    and "\<not> list_ex id (map (problematic d) [0..<shape1 d])"
    and "dropna d = d"
proof -
  have "map (\<lambda>r. (fst r, map (replace_inf \<circ> to_numeric_coerce) (snd r))) (rows d) = rows d"
    using num by (intro map_idI) (simp add: coerce_numeric)
  then show "map_cells replace_inf (map_cells to_numeric_coerce d) = d"
    by (simp add: map_cells_def comp_def)
  have "filter isna (column d j) = []" if "j < shape1 d" for j
  proof (rule filter_isna_numeric, rule ballI)
    fix c assume "c \<in> set (column d j)"
    then obtain r where r: "r \<in> set (rows d)" "c = snd r ! j"
      by (auto simp: column_def)
    with wf that have "c \<in> set (snd r)"
      by auto
    with num r show "\<exists>x. c = Num x"
      by blast
  qed
  then show "\<not> list_ex id (map (problematic d) [0..<shape1 d])"
    by (auto simp: list_ex_iff problematic_def)
  have "filter (\<lambda>r. \<not> list_ex isna (snd r)) (rows d) = rows d"
    using num by (intro filter_True) (simp add: no_na_numeric)
  then show "dropna d = d"
    by (simp add: dropna_def)
qed

lemma clean_steps_numeric_frame:
  fixes df :: "('i, cell) frame"
  assumes num: "\<forall>r \<in> set (rows df). \<forall>c \<in> set (snd r). \<exists>x. c = Num x"
      and wf: "\<forall>r \<in> set (rows df). length (snd r) = shape1 df"
  shows "snd (clean_steps df) = df\<lparr>rows := keep_first fst [] (keep_first snd [] (rows df))\<rparr>"
proof -
  define d where "d = df\<lparr>rows := keep_first fst [] (keep_first snd [] (rows df))\<rparr>"
  have sub: "set (rows d) \<subseteq> set (rows df)"
    using keep_first_subset [of fst "[]"] keep_first_subset [of snd "[]" "rows df"]
    by (auto simp: d_def)
  have n: "\<forall>r \<in> set (rows d). \<forall>c \<in> set (snd r). \<exists>x. c = Num x"
    using num sub by blast
  have w: "\<forall>r \<in> set (rows d). length (snd r) = shape1 d"
    using wf sub by (auto simp: d_def shape1_def)
  have "snd (clean_steps df) =
      (let df4 = map_cells replace_inf (map_cells to_numeric_coerce d);
           problematic_cols = map (problematic df4) [0..<shape1 df4];
           df5 = (if list_ex id problematic_cols then drop_columns problematic_cols df4 else df4)
       in dropna df5)"
    by (simp add: clean_steps_def Let_def d_def)
  also have "\<dots> = d"
    using numeric_frame_steps [OF n w] by (simp add: Let_def)
  finally show ?thesis
    by (simp add: d_def)
qed

text \<open>A cleaned frame holds numbers only.\<close>

lemma set_select: "set (select keep xs) \<subseteq> set xs"
  by (auto simp: select_def dest: set_zip_rightD)

lemma coerced_cell: "isna (replace_inf (to_numeric_coerce c)) \<or> (\<exists>x. replace_inf (to_numeric_coerce c) = Num x)"
  by (cases c) auto

lemma clean_steps_numeric:
  assumes "r \<in> set (rows (snd (clean_steps df)))" and "c \<in> set (snd r)"
  shows "\<exists>x. c = Num x"
proof -
  define df4 where "df4 = map_cells replace_inf (map_cells to_numeric_coerce
    (df\<lparr>rows := keep_first fst [] (keep_first snd [] (rows df))\<rparr>))"
  define df5 where "df5 = (if list_ex id (map (problematic df4) [0..<shape1 df4])
    then drop_columns (map (problematic df4) [0..<shape1 df4]) df4 else df4)"
  have s: "snd (clean_steps df) = dropna df5"
    by (simp add: clean_steps_def Let_def df4_def df5_def)
  have c4: "isna c' \<or> (\<exists>x. c' = Num x)" if "r' \<in> set (rows df4)" "c' \<in> set (snd r')" for r' c'
  proof -
    from that obtain c0 where "c' = replace_inf (to_numeric_coerce c0)"
      by (auto simp: df4_def map_cells_def)
    then show ?thesis
      using coerced_cell [of c0] by simp
  qed
  have c5: "isna c' \<or> (\<exists>x. c' = Num x)" if "r' \<in> set (rows df5)" "c' \<in> set (snd r')" for r' c'
  proof (cases "list_ex id (map (problematic df4) [0..<shape1 df4])")
    case True
    with that obtain r4 where "r4 \<in> set (rows df4)" "c' \<in> set (snd r4)"
      using set_select by (fastforce simp: df5_def drop_columns_def)
    then show ?thesis by (rule c4)
  next
    case False
    with that show ?thesis by (simp add: df5_def c4)
  qed
  from assms have "r \<in> set (rows df5)" and "\<not> list_ex isna (snd r)"
    by (simp_all add: s dropna_def)
  with assms(2) c5 [of r c] show ?thesis
    by (auto simp: list_ex_iff)
qed

subsection \<open>The errors of the optimisation\<close>





section \<open>The functions on the sample inputs\<close>

lemma upt30: "[0..<30] = [0,1,2,3,4,5,6,7,8,9,10,11,12,13,14,15,16,17,18,19,20,21,22,23,24,25,26,27,28,29]"
  by code_simp

lemma upt2: "[0..<2] = [0, Suc 0]"
  by code_simp

lemma shape_sample: "shape0 (sample_frame a) = 30" "shape1 (sample_frame a) = 2"
  by (simp_all add: shape0_def shape1_def sample_frame_def)

lemma shape_numeric: "shape0 (numeric df) = shape0 df" "shape1 (numeric df) = shape1 df"
  by (simp_all add: shape0_def shape1_def numeric_def map_cells_def)

lemma columns_numeric_sample: "columns (numeric (sample_frame a)) = [''A'', ''B'']"
  by (simp add: numeric_def map_cells_def sample_frame_def)

lemma col0: "column (numeric (sample_frame a)) 0 = map a [0..<30]"
  by (simp add: column_def numeric_def map_cells_def sample_frame_def comp_def del: upt_Suc)

lemma col1: "column (numeric (sample_frame a)) (Suc 0) = map (\<lambda>i. (2 * real i - 29)\<^sup>2 / 100000) [0..<30]"
  by (simp add: column_def numeric_def map_cells_def sample_frame_def comp_def del: upt_Suc)

lemma mean1: "mean (column (numeric (sample_frame a)) (Suc 0)) = Some (899 / 300000)"
  unfolding col1 upt30 by (simp add: mean_def power2_eq_square)

lemma cov11: "cov (column (numeric (sample_frame a)) (Suc 0)) (column (numeric (sample_frame a)) (Suc 0)) = Some (217 / 29296875)"
  unfolding col1 upt30 by (simp add: cov_def mean_def power2_eq_square)

lemma sample_mean0: "mean (column (numeric sample_returns) 0) = Some 0"
  unfolding sample_returns_def col0 upt30 by (simp add: mean_def)

lemma sample_cov00: "cov (column (numeric sample_returns) 0) (column (numeric sample_returns) 0) = Some (31 / 100000)"
  unfolding sample_returns_def col0 upt30 by (simp add: cov_def mean_def)

lemma sample_cov01: "cov (column (numeric sample_returns) 0) (column (numeric sample_returns) (Suc 0)) = Some 0"
  unfolding sample_returns_def col0 col1 upt30 by (simp add: cov_def mean_def power2_eq_square)

lemma sample_cov10: "cov (column (numeric sample_returns) (Suc 0)) (column (numeric sample_returns) 0) = Some 0"
  unfolding sample_returns_def col0 col1 upt30 by (simp add: cov_def mean_def power2_eq_square)

lemma sample_statistics:
  "annualized_statistics (numeric sample_returns) =
     Inr ([(''A'', 0), (''B'', 18879 / 25000)], [[7812 / 100000, 0], [0, 217 * 252 / 29296875]])"
  using columns_numeric_sample [of "\<lambda>i. (2 * real i - 29) / 1000"]
    mean1 [of "\<lambda>i. (2 * real i - 29) / 1000"] cov11 [of "\<lambda>i. (2 * real i - 29) / 1000"]
    shape_sample(2) [of "\<lambda>i. (2 * real i - 29) / 1000"]
  by (simp add: annualized_statistics_def df_mean_def df_cov_def shape_numeric upt2
      sample_mean0 sample_cov00 sample_cov01 sample_cov10 TRADING_DAYS_def
      sample_returns_def [symmetric])

lemma sample_covariance_valid:
  "validate_covariance sample_library [[7812 / 100000, 0], [0, 217 * 252 / 29296875]] = Inr ()"
  by (simp add: validate_covariance_def sample_library_def)

lemma sample_frontier:
  "EfficientFrontier sample_library [(''A'', 0), (''B'', 18879 / 25000)] S (0, 1) =
     Inr [(''A'', 1 / 2), (''B'', 1 / 2)]"
  by (simp add: sample_library_def)

lemma near_singular_mean0: "mean (column (numeric near_singular_returns) 0) = Some 0"
  unfolding near_singular_returns_def col0 upt30 by (simp add: mean_def)

lemma near_singular_cov00:
  "cov (column (numeric near_singular_returns) 0) (column (numeric near_singular_returns) 0) =
     Some (31 / 100000000000000000)"
  unfolding near_singular_returns_def col0 upt30 by (simp add: cov_def mean_def)

lemma near_singular_cov01:
  "cov (column (numeric near_singular_returns) 0) (column (numeric near_singular_returns) (Suc 0)) = Some 0"
  unfolding near_singular_returns_def col0 col1 upt30 by (simp add: cov_def mean_def power2_eq_square)

lemma near_singular_cov10:
  "cov (column (numeric near_singular_returns) (Suc 0)) (column (numeric near_singular_returns) 0) = Some 0"
  unfolding near_singular_returns_def col0 col1 upt30 by (simp add: cov_def mean_def power2_eq_square)

lemma near_singular_statistics:
  "annualized_statistics (numeric near_singular_returns) =
     Inr ([(''A'', 0), (''B'', 18879 / 25000)],
          [[7812 / 100000000000000000, 0], [0, 217 * 252 / 29296875]])"
  using columns_numeric_sample [of "\<lambda>i. (2 * real i - 29) / 1000000000"]
    mean1 [of "\<lambda>i. (2 * real i - 29) / 1000000000"] cov11 [of "\<lambda>i. (2 * real i - 29) / 1000000000"]
    shape_sample(2) [of "\<lambda>i. (2 * real i - 29) / 1000000000"]
  by (simp add: annualized_statistics_def df_mean_def df_cov_def shape_numeric upt2
      near_singular_mean0 near_singular_cov00 near_singular_cov01 near_singular_cov10
      TRADING_DAYS_def near_singular_returns_def [symmetric])

lemma constant_mean0: "mean (column (numeric constant_returns) 0) = Some (1 / 100)"
  unfolding constant_returns_def col0 upt30 by (simp add: mean_def)

lemma constant_cov00:
  "cov (column (numeric constant_returns) 0) (column (numeric constant_returns) 0) = Some 0"
  unfolding constant_returns_def col0 upt30 by (simp add: cov_def mean_def)

lemma constant_cov01:
  "cov (column (numeric constant_returns) 0) (column (numeric constant_returns) (Suc 0)) = Some 0"
  unfolding constant_returns_def col0 col1 upt30 by (simp add: cov_def mean_def power2_eq_square)

lemma constant_cov10:
  "cov (column (numeric constant_returns) (Suc 0)) (column (numeric constant_returns) 0) = Some 0"
  unfolding constant_returns_def col0 col1 upt30 by (simp add: cov_def mean_def power2_eq_square)

lemma constant_statistics:
  "annualized_statistics (numeric constant_returns) =
     Inr ([(''A'', 63 / 25), (''B'', 18879 / 25000)], [[0, 0], [0, 217 * 252 / 29296875]])"
  using columns_numeric_sample [of "\<lambda>i. 1 / 100"]
    mean1 [of "\<lambda>i. 1 / 100"] cov11 [of "\<lambda>i. 1 / 100"] shape_sample(2) [of "\<lambda>i. 1 / 100"]
  by (simp add: annualized_statistics_def df_mean_def df_cov_def shape_numeric upt2
      constant_mean0 constant_cov00 constant_cov01 constant_cov10
      TRADING_DAYS_def constant_returns_def [symmetric])

subsection \<open>Validation, cleaning and the endpoint on the sample inputs\<close>

lemma rows_sample:
  "rows (sample_frame a) = map (\<lambda>i. (i, [Num (a i), Num ((2 * real i - 29)\<^sup>2 / 100000)])) [0..<30]"
  by (simp add: sample_frame_def)

lemma cells_sample:
  "\<forall>r \<in> set (rows (sample_frame a)). \<forall>c \<in> set (snd r). \<exists>x. c = Num x"
  "\<forall>r \<in> set (rows (sample_frame a)). length (snd r) = shape1 (sample_frame a)"
  unfolding shape_sample rows_sample by (auto simp del: cell.inject)

lemma cell_col0: "column (sample_frame a) 0 = map (\<lambda>i. Num (a i)) [0..<30]"
  by (simp add: column_def sample_frame_def comp_def del: upt_Suc)

lemma cell_col1:
  "column (sample_frame a) (Suc 0) = map (\<lambda>i. Num ((2 * real i - 29)\<^sup>2 / 100000)) [0..<30]"
  by (simp add: column_def sample_frame_def comp_def del: upt_Suc)

lemma sample_not_empty: "\<not> df_empty (sample_frame a)"
  by (simp add: df_empty_def sample_frame_def)

lemma sample_all_numeric: "non_numeric_cols (sample_frame a) = []"
proof -
  have "\<not> list_ex is_text (column (sample_frame a) j)" if "j < 2" for j
  proof -
    from that have "j = 0 \<or> j = Suc 0" by auto
    then show ?thesis
      by (auto simp: cell_col0 cell_col1 list_ex_iff)
  qed
  then show ?thesis
    by (simp add: non_numeric_cols_def shape_sample)
qed

lemma col1_small: "c \<in> set (column (sample_frame a) (Suc 0)) \<Longrightarrow> \<not> cell_gt c 1 \<and> \<not> cell_lt c (- 1)"
  unfolding cell_col1 upt30 by (auto simp: power2_eq_square)

lemma sample_cells_gt:
  assumes "1 \<le> t"
  shows "(\<exists>j<shape1 (sample_frame a). \<exists>c \<in> set (column (sample_frame a) j). cell_gt c t) \<longleftrightarrow>
     (\<exists>i<30. t < a i)"
proof -
  have s: "(\<exists>j<2. P j) \<longleftrightarrow> P 0 \<or> P (Suc 0)" for P :: "nat \<Rightarrow> bool"
    by (auto simp: less_2_cases_iff)
  have "\<not> cell_gt c t" if "c \<in> set (column (sample_frame a) (Suc 0))" for c
    using col1_small [OF that] cell_gt_mono [of c t 1] assms by blast
  then show ?thesis
    unfolding shape_sample s by (auto simp: cell_col0)
qed

lemma sample_cells_lt:
  assumes "t \<le> - 1"
  shows "(\<exists>j<shape1 (sample_frame a). \<exists>c \<in> set (column (sample_frame a) j). cell_lt c t) \<longleftrightarrow>
     (\<exists>i<30. a i < t)"
proof -
  have s: "(\<exists>j<2. P j) \<longleftrightarrow> P 0 \<or> P (Suc 0)" for P :: "nat \<Rightarrow> bool"
    by (auto simp: less_2_cases_iff)
  have "\<not> cell_lt c t" if "c \<in> set (column (sample_frame a) (Suc 0))" for c
    using col1_small [OF that] assms by (cases c) auto
  then show ?thesis
    unfolding shape_sample s by (auto simp: cell_col0)
qed

lemma extreme_max: "df_max extreme_returns = Num 29"
  unfolding df_max_def extreme_returns_def shape_sample upt2
  by (simp add: cell_col0 cell_col1 series_max_def upt30 power2_eq_square)

lemma extreme_min: "df_min extreme_returns = Num (- 29)"
  unfolding df_min_def extreme_returns_def shape_sample upt2
  by (simp add: cell_col0 cell_col1 series_min_def upt30 power2_eq_square)

lemma sample_valid: "validate_csv_format sample_returns = ([], Inr ())"
proof -
  have "\<not> cell_gt (df_max sample_returns) 1"
    unfolding cell_gt_df_max sample_returns_def by (subst sample_cells_gt) auto
  moreover have "\<not> cell_lt (df_min sample_returns) (- 1)"
    unfolding cell_lt_df_min sample_returns_def by (subst sample_cells_lt) auto
  ultimately show ?thesis
    by (simp add: validate_csv_format_def Let_def)
       (simp add: sample_returns_def sample_not_empty sample_all_numeric shape_sample)
qed

lemma sample_rows_distinct:
  "distinct (map snd (rows sample_returns))" "distinct (map fst (rows sample_returns))"
proof -
  have "inj_on (\<lambda>i. [Num ((2 * real i - 29) / 1000), Num ((2 * real i - 29)\<^sup>2 / 100000)]) A" for A
    by (rule inj_onI) simp
  then show "distinct (map snd (rows sample_returns))"
    unfolding sample_returns_def rows_sample by (simp add: comp_def distinct_map del: upt_Suc)
  show "distinct (map fst (rows sample_returns))"
    unfolding sample_returns_def rows_sample by (simp add: comp_def del: upt_Suc)
qed

lemma sample_steps: "snd (clean_steps sample_returns) = sample_returns"
proof -
  have "keep_first snd [] (rows sample_returns) = rows sample_returns"
    by (rule keep_first_distinct [OF sample_rows_distinct(1)]) simp
  moreover have "keep_first fst [] (rows sample_returns) = rows sample_returns"
    by (rule keep_first_distinct [OF sample_rows_distinct(2)]) simp
  ultimately show ?thesis
    using clean_steps_numeric_frame [of sample_returns] cells_sample [of "\<lambda>i. (2 * real i - 29) / 1000"]
    by (simp add: sample_returns_def)
qed

lemma sample_clean: "snd (clean_data sample_returns) = Inr sample_returns"
proof (cases "clean_steps sample_returns")
  case (Pair printed df')
  with sample_steps have "df' = sample_returns"
    by simp
  with Pair show ?thesis
    by (simp add: clean_data_def sample_returns_def shape_sample)
qed

lemma sample_optimum:
  "snd (optimize_portfolio sample_library (numeric sample_returns) 1 1) =
     Inr (make_result [(''A'', 1 / 2), (''B'', 1 / 2)] (1 / 10, 1 / 5, 1 / 2))"
proof -
  define mu :: "(string \<times> real) list" where "mu = [(''A'', 0), (''B'', 18879 / 25000)]"
  define S :: "real list list"
    where "S = [[7812 / 100000, 0], [0, 217 * 252 / 29296875]]"
  have s: "annualized_statistics (numeric sample_returns) = Inr (mu, S)"
    unfolding mu_def S_def by (rule sample_statistics)
  have v: "validate_covariance sample_library S = Inr ()"
    unfolding S_def by (rule sample_covariance_valid)
  have t: "try_block sample_library mu S 1 1 =
      ([], Inr (make_result [(''A'', 1 / 2), (''B'', 1 / 2)] (1 / 10, 1 / 5, 1 / 2)))"
    by (simp add: try_block_def sample_library_def mu_def)
  show ?thesis
    unfolding optimize_portfolio_def s by (simp add: v t)
qed

lemma sample_filename: "endswith (lower ''returns.CSV'') ''.csv''"
  by code_simp

lemma sample_request:
  "optimize_portfolio_endpoint sample_library sample_parser sample_upload 1 1 =
     (sample_upload\<lparr>cursor := 3\<rparr>, Inr [(''A'', 1 / 2), (''B'', 1 / 2)])"
proof -
  have n: "filename sample_upload = Some ''returns.CSV''"
    by (simp add: sample_upload_def)
  have r: "file_read sample_upload = (''A,B'', sample_upload\<lparr>cursor := 3\<rparr>)"
    by (simp add: file_read_def sample_upload_def)
  have p: "read_csv sample_parser ''A,B'' = Inr sample_returns"
    by (simp add: read_csv_def sample_parser_def)
  show ?thesis
    unfolding optimize_portfolio_endpoint_def n
    by (simp add: sample_filename r p sample_valid sample_clean sample_optimum make_result_def)
qed



section \<open>The orchestration of the two solves\<close>

text \<open>
  Claim C1. When the statistics are defined, the covariance matrix passes its check, the
  max-Sharpe solve and the reading of its weights and performance succeed, the volatility
  found exceeds the risk ceiling, and the efficient-risk solve raises (whatever the
  exception \<open>e\<close>), \<open>optimize_portfolio\<close> still returns a result, and it is the one built
  from the max-Sharpe weights and metrics; the failure is only printed.
\<close>

theorem fallback_retains_max_sharpe:
  assumes "annualized_statistics df = Inr (mu, S)"
      and "validate_covariance L S = Inr ()"
      and "EfficientFrontier L mu S (0, max_weight) = Inr ef"
      and "max_sharpe L ef = Inr ef'"
      and "clean_weights L ef' = Inr cw"
      and "portfolio_performance L ef' = Inr (er, ev, sr)"
      and "risk_level < ev"
      and "efficient_risk L ef risk_level = Inl e"
  shows "optimize_portfolio L df risk_level max_weight =
           ([VolatilityExceeds ev risk_level, RiskFailed e, UsingMaxSharpe],
            Inr (make_result cw (er, ev, sr)))"
  using assms by (simp add: optimize_portfolio_def try_block_def risk_block_def)

text \<open>On the sample returns with the ceiling 0.1 below the volatility 0.2.\<close>

theorem fallback_retains_max_sharpe_witness:
  "(1 / 10 :: real) < 1 / 5
   \<and> efficient_risk sample_library [(''A'', 1 / 2), (''B'', 1 / 2)] (1 / 10) = Inl ''infeasible''
   \<and> optimize_portfolio sample_library (numeric sample_returns) (1 / 10) 1 =
       ([VolatilityExceeds (1 / 5) (1 / 10), RiskFailed ''infeasible'', UsingMaxSharpe],
        Inr (make_result [(''A'', 1 / 2), (''B'', 1 / 2)] (1 / 10, 1 / 5, 1 / 2)))"
proof -
  have h4: "max_sharpe sample_library [(''A'', 1 / 2), (''B'', 1 / 2)] = Inr [(''A'', 1 / 2), (''B'', 1 / 2)]"
    by (simp add: sample_library_def)
  have h5: "clean_weights sample_library [(''A'', 1 / 2), (''B'', 1 / 2)] = Inr [(''A'', 1 / 2), (''B'', 1 / 2)]"
    by (simp add: sample_library_def)
  have h6: "portfolio_performance sample_library [(''A'', 1 / 2), (''B'', 1 / 2)] = Inr (1 / 10, 1 / 5, 1 / 2)"
    by (simp add: sample_library_def)
  have h7: "(1 / 10 :: real) < 1 / 5"
    by simp
  have h8: "efficient_risk sample_library [(''A'', 1 / 2), (''B'', 1 / 2)] (1 / 10) = Inl ''infeasible''"
    by (simp add: sample_library_def)
  show ?thesis
    using fallback_retains_max_sharpe [OF sample_statistics sample_covariance_valid sample_frontier h4 h5 h6 h7 h8] h7 h8
    by simp
qed

text \<open>
  Claim C5. Under the same conditions on the max-Sharpe solve, when the volatility does not
  exceed the risk ceiling the result is the one built from the max-Sharpe weights and
  metrics, nothing is printed, and the outcome does not depend on what the efficient-risk
  solve would do: it is not called.
\<close>

theorem within_ceiling_max_sharpe_is_final:
  assumes "annualized_statistics df = Inr (mu, S)"
      and "validate_covariance L S = Inr ()"
      and "EfficientFrontier L mu S (0, max_weight) = Inr ef"
      and "max_sharpe L ef = Inr ef'"
      and "clean_weights L ef' = Inr cw"
      and "portfolio_performance L ef' = Inr (er, ev, sr)"
      and "\<not> risk_level < ev"
  shows "optimize_portfolio L df risk_level max_weight = ([], Inr (make_result cw (er, ev, sr)))
       \<and> optimize_portfolio (L\<lparr>efficient_risk := f\<rparr>) df risk_level max_weight
           = optimize_portfolio L df risk_level max_weight"
  using assms by (simp add: optimize_portfolio_def try_block_def validate_covariance_def)

text \<open>On the sample returns with the ceiling equal to the volatility, against a library
  whose efficient-risk solve would succeed.\<close>

theorem within_ceiling_max_sharpe_is_final_witness:
  "\<not> (1 / 5 :: real) < 1 / 5
   \<and> optimize_portfolio sample_library (numeric sample_returns) (1 / 5) 1 =
       ([], Inr (make_result [(''A'', 1 / 2), (''B'', 1 / 2)] (1 / 10, 1 / 5, 1 / 2)))
   \<and> optimize_portfolio (sample_library\<lparr>efficient_risk := \<lambda>ef target. Inr ef\<rparr>)
        (numeric sample_returns) (1 / 5) 1 =
      optimize_portfolio sample_library (numeric sample_returns) (1 / 5) 1"
proof -
  have h4: "max_sharpe sample_library [(''A'', 1 / 2), (''B'', 1 / 2)] = Inr [(''A'', 1 / 2), (''B'', 1 / 2)]"
    by (simp add: sample_library_def)
  have h5: "clean_weights sample_library [(''A'', 1 / 2), (''B'', 1 / 2)] = Inr [(''A'', 1 / 2), (''B'', 1 / 2)]"
    by (simp add: sample_library_def)
  have h6: "portfolio_performance sample_library [(''A'', 1 / 2), (''B'', 1 / 2)] = Inr (1 / 10, 1 / 5, 1 / 2)"
    by (simp add: sample_library_def)
  have h7: "\<not> (1 / 5 :: real) < 1 / 5"
    by simp
  show ?thesis
    using within_ceiling_max_sharpe_is_final [OF sample_statistics sample_covariance_valid sample_frontier h4 h5 h6 h7,
        of "\<lambda>ef target. Inr ef"]
    by simp
qed

section \<open>The statistics\<close>

text \<open>
  Claim C6. On a matrix of at least two observations (a cleaned one has thirty), the
  expected returns are the per-asset means times 252 and the covariance matrix is the
  sample covariance with the denominator \<open>N - 1\<close> times 252, as \<open>spec_mu\<close> and
  \<open>spec_sigma\<close> word them.
\<close>

theorem annualized_statistics_refine_spec:
  assumes "2 \<le> shape0 df"
  shows "annualized_statistics df = Inr (zip (columns df) (spec_mu df), spec_sigma df)"
proof -
  have ne: "column df j \<noteq> []" for j
    using assms length_column [of df j] by auto
  have m: "df_mean df = map (\<lambda>j. Some (spec_mean (column df j))) [0..<shape1 df]"
    by (simp add: df_mean_def mean_spec [OF ne])
  have c: "df_cov df = map (\<lambda>i. map (\<lambda>j. Some ((\<Sum>t<shape0 df. (column df i ! t - spec_mean (column df i)) *
                          (column df j ! t - spec_mean (column df j))) / (real (shape0 df) - 1))) [0..<shape1 df]) [0..<shape1 df]"
    by (simp add: df_cov_def cov_spec [OF assms])
  show ?thesis
    unfolding annualized_statistics_def m c
    by (auto simp add: Let_def TRADING_DAYS_def spec_mu_def spec_sigma_def comp_def)
qed

text \<open>The values on the sample returns.\<close>

theorem annualized_statistics_refine_spec_witness:
  "(2::nat) \<le> shape0 (numeric sample_returns)
   \<and> spec_mu (numeric sample_returns) = [0, 18879 / 25000]
   \<and> spec_sigma (numeric sample_returns) = [[7812 / 100000, 0], [0, 217 * 252 / 29296875]]"
proof -
  have h: "(2::nat) \<le> shape0 (numeric sample_returns)"
    by (simp add: shape_numeric sample_returns_def shape_sample)
  have l: "length (spec_mu (numeric sample_returns)) = 2"
    by (simp add: spec_mu_def shape_numeric sample_returns_def shape_sample)
  have "Inr (zip (columns (numeric sample_returns)) (spec_mu (numeric sample_returns)),
          spec_sigma (numeric sample_returns)) =
        (Inr ([(''A'', 0), (''B'', 18879 / 25000)], [[7812 / 100000, 0], [0, 217 * 252 / 29296875]])
          :: error + (string \<times> real) list \<times> real list list)"
    using annualized_statistics_refine_spec [OF h] sample_statistics by simp
  then have z: "zip [''A'', ''B''] (spec_mu (numeric sample_returns)) = [(''A'', 0), (''B'', 18879 / 25000)]"
    and s: "spec_sigma (numeric sample_returns) = [[7812 / 100000, 0], [0, 217 * 252 / 29296875]]"
    by (simp_all add: sample_returns_def columns_numeric_sample)
  from l obtain x y where xy: "spec_mu (numeric sample_returns) = [x, y]"
    by (cases "spec_mu (numeric sample_returns)"; simp)
       (metis Suc_length_conv length_0_conv)
  with z have "x = 0" "y = 18879 / 25000"
    by simp_all
  with xy h s show ?thesis
    by simp
qed

section \<open>The covariance check\<close>

text \<open>
  Claim C4, as amended. When the statistics are defined and \<open>eigvals\<close> returns the
  eigenvalues \<open>es\<close>, the run fails with the error of line 136 exactly when some eigenvalue
  is at most zero. The threshold is zero itself: the code has no epsilon.
\<close>

theorem rejected_iff_nonpositive_eigenvalue:
  assumes "annualized_statistics df = Inr (mu, S)"
      and "eigvals L S = Inr es"
  shows "snd (optimize_portfolio L df risk_level max_weight) = Inl NotPositiveSemidefinite
         \<longleftrightarrow> (\<exists>ev \<in> set es. ev \<le> 0)"
  using assms
  by (auto simp add: optimize_portfolio_def validate_covariance_def split: prod.splits sum.splits)

text \<open>A constant column gives the eigenvalue zero, and the run is rejected.\<close>

theorem rejected_iff_nonpositive_eigenvalue_witness:
  "eigvals sample_library [[0, 0], [0, 217 * 252 / 29296875]] = Inr [0, 217 * 252 / 29296875]
   \<and> snd (optimize_portfolio sample_library (numeric constant_returns) 1 1) =
       Inl NotPositiveSemidefinite"
proof -
  have e: "eigvals sample_library [[0, 0], [0, 217 * 252 / 29296875]] = Inr [0, 217 * 252 / 29296875]"
    by (simp add: sample_library_def)
  show ?thesis
    using rejected_iff_nonpositive_eigenvalue [OF constant_statistics e, of 1 1] e by simp
qed

text \<open>
  The claim as stated fails: the covariance matrix of \<open>near_singular_returns\<close> has the
  eigenvalue \<open>7.812e-14\<close>, below the epsilon \<open>1e-10\<close> that the claim names, and the run
  is not rejected.
\<close>

theorem tiny_positive_eigenvalue_accepted:
  "eigvals sample_library [[7812 / 100000000000000000, 0], [0, 217 * 252 / 29296875]] =
     Inr [7812 / 100000000000000000, 217 * 252 / 29296875]
   \<and> (7812 / 100000000000000000 :: real) \<le> 1 / 10000000000
   \<and> snd (optimize_portfolio sample_library (numeric near_singular_returns) 1 1) =
       Inr (make_result [(''A'', 1 / 2), (''B'', 1 / 2)] (1 / 10, 1 / 5, 1 / 2))"
proof -
  define mu :: "(string \<times> real) list" where "mu = [(''A'', 0), (''B'', 18879 / 25000)]"
  define S :: "real list list"
    where "S = [[7812 / 100000000000000000, 0], [0, 217 * 252 / 29296875]]"
  have s: "annualized_statistics (numeric near_singular_returns) = Inr (mu, S)"
    unfolding mu_def S_def by (rule near_singular_statistics)
  have e: "eigvals sample_library S = Inr [7812 / 100000000000000000, 217 * 252 / 29296875]"
    by (simp add: sample_library_def S_def)
  have v: "validate_covariance sample_library S = Inr ()"
    unfolding validate_covariance_def e by simp
  have t: "try_block sample_library mu S 1 1 =
      ([], Inr (make_result [(''A'', 1 / 2), (''B'', 1 / 2)] (1 / 10, 1 / 5, 1 / 2)))"
    by (simp add: try_block_def sample_library_def mu_def)
  have "snd (optimize_portfolio sample_library (numeric near_singular_returns) 1 1) =
       Inr (make_result [(''A'', 1 / 2), (''B'', 1 / 2)] (1 / 10, 1 / 5, 1 / 2))"
    unfolding optimize_portfolio_def s by (simp add: v t)
  then show ?thesis
    using e unfolding S_def by simp
qed

section \<open>The range check of the format validation\<close>

text \<open>
  Claim C10, as amended. A frame holding a cell above 100 is always rejected by
  \<open>validate_csv_format\<close>. The error is the one of line 72 (prices instead of returns) when
  the frame has passed the checks of lines 44 to 64: it is not empty, has at least 30 rows
  and 2 columns, and no column holds text. On such a frame with no cell above 100 but a
  cell above 1 or below -1, the validation succeeds and only the warning of line 75 is
  printed, with the minimum and the maximum of the frame.
\<close>

theorem prices_rejected_extremes_warned:
  "((\<exists>j<shape1 df. \<exists>c \<in> set (column df j). cell_gt c 100) \<longrightarrow>
      (\<exists>e. snd (validate_csv_format df) = Inl e))
   \<and> (\<not> df_empty df \<and> 30 \<le> shape0 df \<and> 2 \<le> shape1 df \<and> non_numeric_cols df = [] \<longrightarrow>
      ((\<exists>j<shape1 df. \<exists>c \<in> set (column df j). cell_gt c 100) \<longrightarrow>
         validate_csv_format df = ([], Inl PricesNotReturns))
      \<and> (\<not> (\<exists>j<shape1 df. \<exists>c \<in> set (column df j). cell_gt c 100) \<and>
         ((\<exists>j<shape1 df. \<exists>c \<in> set (column df j). cell_gt c 1) \<or>
          (\<exists>j<shape1 df. \<exists>c \<in> set (column df j). cell_lt c (- 1))) \<longrightarrow>
         validate_csv_format df = ([ExtremeReturns (df_min df) (df_max df)], Inr ())))"
proof -
  have up: "cell_gt (df_max df) 100 \<Longrightarrow> cell_gt (df_max df) 1"
    using cell_gt_mono [of "df_max df" 100 1] by simp
  have a: "cell_gt (df_max df) 100 \<Longrightarrow> \<exists>e. snd (validate_csv_format df) = Inl e"
    using up by (simp add: validate_csv_format_def Let_def)
  have b: "\<not> df_empty df \<and> 30 \<le> shape0 df \<and> 2 \<le> shape1 df \<and> non_numeric_cols df = [] \<Longrightarrow>
      cell_gt (df_max df) 100 \<Longrightarrow> validate_csv_format df = ([], Inl PricesNotReturns)"
    using up by (simp add: validate_csv_format_def Let_def)
  have c: "\<not> df_empty df \<and> 30 \<le> shape0 df \<and> 2 \<le> shape1 df \<and> non_numeric_cols df = [] \<Longrightarrow>
      \<not> cell_gt (df_max df) 100 \<Longrightarrow> cell_gt (df_max df) 1 \<or> cell_lt (df_min df) (- 1) \<Longrightarrow>
      validate_csv_format df = ([ExtremeReturns (df_min df) (df_max df)], Inr ())"
    by (simp add: validate_csv_format_def Let_def)
  show ?thesis
    using a b c unfolding cell_gt_df_max cell_lt_df_min by blast
qed

text \<open>A frame whose largest cell is 290, and one whose cells range from -29 to 29.\<close>

theorem prices_rejected_extremes_warned_witness:
  "column price_like 0 ! 29 = Num 290
   \<and> validate_csv_format price_like = ([], Inl PricesNotReturns)
   \<and> column extreme_returns 0 ! 29 = Num 29
   \<and> validate_csv_format extreme_returns = ([ExtremeReturns (Num (- 29)) (Num 29)], Inr ())"
proof -
  have p: "\<not> df_empty price_like \<and> 30 \<le> shape0 price_like \<and> 2 \<le> shape1 price_like
      \<and> non_numeric_cols price_like = []"
    by (simp add: price_like_def sample_not_empty sample_all_numeric shape_sample)
  have e: "\<not> df_empty extreme_returns \<and> 30 \<le> shape0 extreme_returns \<and> 2 \<le> shape1 extreme_returns
      \<and> non_numeric_cols extreme_returns = []"
    by (simp add: extreme_returns_def sample_not_empty sample_all_numeric shape_sample)
  have p29: "column price_like 0 ! 29 = Num 290"
    by (simp add: price_like_def cell_col0 del: upt_Suc)
  have e29: "column extreme_returns 0 ! 29 = Num 29"
    by (simp add: extreme_returns_def cell_col0 del: upt_Suc)
  have "(29::nat) < 30 \<and> (100::real) < 10 * (2 * real (29::nat) - 29)"
    by simp
  then have "\<exists>i<30. (100::real) < 10 * (2 * real i - 29)"
    by blast
  then have p100: "\<exists>j<shape1 price_like. \<exists>c \<in> set (column price_like j). cell_gt c 100"
    unfolding price_like_def by (subst sample_cells_gt) simp_all
  have e100: "\<not> (\<exists>j<shape1 extreme_returns. \<exists>c \<in> set (column extreme_returns j). cell_gt c 100)"
    unfolding extreme_returns_def by (subst sample_cells_gt) auto
  have "(29::nat) < 30 \<and> (1::real) < 2 * real (29::nat) - 29"
    by simp
  then have "\<exists>i<30. (1::real) < 2 * real i - 29"
    by blast
  then have e1: "\<exists>j<shape1 extreme_returns. \<exists>c \<in> set (column extreme_returns j). cell_gt c 1"
    unfolding extreme_returns_def by (subst sample_cells_gt) simp_all
  show ?thesis
    using prices_rejected_extremes_warned [of price_like] prices_rejected_extremes_warned [of extreme_returns]
      p e p100 e100 e1 p29 e29
    by (simp add: extreme_min extreme_max)
qed

text \<open>
  The claim as stated fails: the one-row frame \<open>short_prices\<close> holds the cell 150, and
  the validation rejects it at line 49 for its number of observations, not with the error
  about prices.
\<close>

theorem short_price_file_other_error:
  "column short_prices 0 = [Num 150]
   \<and> cell_gt (Num 150) 100
   \<and> validate_csv_format short_prices = ([], Inl (InsufficientObservations 1))
   \<and> snd (validate_csv_format short_prices) \<noteq> Inl PricesNotReturns"
  by (simp add: short_prices_def column_def validate_csv_format_def df_empty_def shape0_def)

section \<open>The minima on observations and assets\<close>




section \<open>The detailed endpoint\<close>

text \<open>
  Claim C9. The detailed endpoint never returns detailed metrics. When the main endpoint
  raises, its HTTP exception is raised again. When the main endpoint succeeds it has read
  the upload to its end, so the read of line 310 returns the empty string, \<open>read_csv\<close>
  raises on it, and the handler of line 319 answers with the status 500 and the internal
  error.
\<close>

theorem detailed_endpoint_never_succeeds:
  "snd (optimize_portfolio_detailed_endpoint L parser file risk_level max_weight) \<noteq> Inr res
   \<and> (optimize_portfolio_endpoint L parser file risk_level max_weight = (file', Inr p) \<longrightarrow>
        file_read file' = ([], file')
        \<and> optimize_portfolio_detailed_endpoint L parser file risk_level max_weight =
            (file', Inl (HTTPException 500 (InternalError (ParseFailure EmptyDataError)))))"
proof (cases "optimize_portfolio_endpoint L parser file risk_level max_weight")
  case (Pair f r)
  show ?thesis
  proof (cases r)
    case (Inl http)
    with Pair show ?thesis
      by (simp add: optimize_portfolio_detailed_endpoint_def)
  next
    case (Inr q)
    with Pair have "f = snd (file_read file)"
      using endpoint_consumes by blast
    then have "file_read f = ([], f)"
      by (simp add: file_read_twice)
    with Pair Inr show ?thesis
      by (auto simp add: optimize_portfolio_detailed_endpoint_def read_csv_def)
  qed
qed

text \<open>A request with the sample returns, on which the main endpoint succeeds.\<close>

theorem detailed_endpoint_never_succeeds_witness:
  "optimize_portfolio_endpoint sample_library sample_parser sample_upload 1 1 =
     (sample_upload\<lparr>cursor := 3\<rparr>, Inr [(''A'', 1 / 2), (''B'', 1 / 2)])
   \<and> file_read (sample_upload\<lparr>cursor := 3\<rparr>) = ([], sample_upload\<lparr>cursor := 3\<rparr>)
   \<and> optimize_portfolio_detailed_endpoint sample_library sample_parser sample_upload 1 1 =
       (sample_upload\<lparr>cursor := 3\<rparr>,
        Inl (HTTPException 500 (InternalError (ParseFailure EmptyDataError))))"
  using detailed_endpoint_never_succeeds
    [of sample_library sample_parser sample_upload 1 1 undefined "sample_upload\<lparr>cursor := 3\<rparr>"
      "[(''A'', 1 / 2), (''B'', 1 / 2)]"]
    sample_request
  by simp

end
